theory Spec2Isabelle
  imports Main "HOL-Library.AList"
begin

section \<open>audiodedupe: the fingerprint index, the scan, the pruner\<close>

text \<open>
  A shallow embedding of \<^verbatim>\<open>audiodedupe.py\<close>. The object of class
  \<^verbatim>\<open>AudioDedupe\<close> is a record, passed in and returned updated; everything outside the
  process (the files on disk, the directory walk, the fingerprint command, the regular
  expression library) is a second record, the world. A method returns how it ends
  together with the object and the world it leaves.
\<close>

datatype error =
    AudioDedupeException
  | RuntimeError
  | TypeError
  | AttributeError
  | ValueError
  | OSError
  | ReError

subsection \<open>Values read from JSON\<close>

text \<open>
  What \<^verbatim>\<open>json.load\<close> and \<^verbatim>\<open>json.loads\<close> return. Of a number the code only ever asks
  whether it is zero and whether it can be a dict key, so numbers are integers here. An
  object is the dict Python makes of it: its keys in the order of the text, each one once.
\<close>

datatype json =
    JNull
  | JBool bool
  | JNum int
  | JStr string
  | JArr "json list"
  | JObj "(string \<times> json) list"

text \<open>\<^verbatim>\<open>bool(v)\<close>, and whether \<^verbatim>\<open>v\<close> can be a dict key.\<close>

definition truthy :: "json \<Rightarrow> bool" where
  "truthy v =
     (case v of JNull \<Rightarrow> False | JBool b \<Rightarrow> b | JNum n \<Rightarrow> n \<noteq> 0 | JStr s \<Rightarrow> s \<noteq> []
      | JArr xs \<Rightarrow> xs \<noteq> [] | JObj kvs \<Rightarrow> kvs \<noteq> [])"

definition hashable :: "json \<Rightarrow> bool" where
  "hashable v = (case v of JArr xs \<Rightarrow> False | JObj kvs \<Rightarrow> False | _ \<Rightarrow> True)"

text \<open>How a method call ends. \<open>Untyped v\<close>: the call goes on, but from here
  \<^verbatim>\<open>self.fingerprints\<close> is no longer a dict from strings to lists of strings (it holds
  \<open>v\<close>, or has \<open>v\<close> as a key), which the record below cannot hold; what the object does
  after that is not followed.\<close>

datatype ending =
    Returns
  | Raises error
  | Hangs
  | Untyped json

subsection \<open>Python dictionaries that are iterated\<close>

text \<open>
  \<^verbatim>\<open>self.fingerprints\<close> is a dict from fingerprint to list of file names, and the code
  iterates it, so it is an association list in insertion order, each key once.
  \<^verbatim>\<open>d[k] = v\<close> is \<open>AList.update\<close> (an existing key keeps its place, a new one goes last),
  \<^verbatim>\<open>del d[k]\<close> is \<open>AList.delete\<close>, \<^verbatim>\<open>d[k]\<close> is \<open>map_of\<close>.
  \<^verbatim>\<open>self.reverseFingerprints\<close> is only looked up and assigned, never iterated: a map.
  A file name is the list of its bytes.
\<close>

type_synonym path = string
type_synonym fingerprint = string
type_synonym fingerprints = "(fingerprint \<times> path list) list"

definition setdefault :: "('k \<times> 'v) list \<Rightarrow> 'k \<Rightarrow> 'v \<Rightarrow> ('k \<times> 'v) list" where
  "setdefault d k v = (case map_of d k of None \<Rightarrow> d @ [(k, v)] | Some _ \<Rightarrow> d)"

definition members :: "fingerprints \<Rightarrow> path set" where
  "members fps = set (concat (map snd fps))"

definition forward :: "fingerprints \<Rightarrow> fingerprint \<Rightarrow> path list" where
  "forward fps fp = (case map_of fps fp of None \<Rightarrow> [] | Some fileList \<Rightarrow> fileList)"

text \<open>
  The JSON text \<^verbatim>\<open>json.dump\<close> writes for such a dict, as the value \<^verbatim>\<open>json.load\<close> reads
  back from it, and the index a loaded value is, if it is one.
\<close>

definition json_dump :: "fingerprints \<Rightarrow> json" where
  "json_dump d = JObj (map (\<lambda>(fp, fileList). (fp, JArr (map JStr fileList))) d)"

definition as_string :: "json \<Rightarrow> string option" where
  "as_string v = (case v of JStr s \<Rightarrow> Some s | _ \<Rightarrow> None)"

definition as_files :: "json \<Rightarrow> path list option" where
  "as_files v =
     (case v of
        JArr xs \<Rightarrow> if list_all (\<lambda>x. as_string x \<noteq> None) xs
                   then Some (map (\<lambda>x. the (as_string x)) xs) else None
      | _ \<Rightarrow> None)"

definition as_index :: "json \<Rightarrow> fingerprints option" where
  "as_index v =
     (case v of
        JObj kvs \<Rightarrow> if list_all (\<lambda>kv. as_files (snd kv) \<noteq> None) kvs
                    then Some (map (\<lambda>kv. (fst kv, the (as_files (snd kv)))) kvs) else None
      | _ \<Rightarrow> None)"

text \<open>
  What the loops of \<^verbatim>\<open>_updateReverseFingerprints\<close> raise on a loaded value that is not
  an index: a value that is not a dict has no \<^verbatim>\<open>items\<close>; a number, a boolean or
  \<^verbatim>\<open>null\<close> in place of a list cannot be iterated; a list or a dict inside a list cannot be
  a key of \<^verbatim>\<open>reverseFingerprints\<close>. A string or a dict in place of a list is iterated
  without an exception.
\<close>

definition iteration_raises :: "json \<Rightarrow> bool" where
  "iteration_raises v =
     (case v of
        JArr xs \<Rightarrow> list_ex (\<lambda>x. \<not> hashable x) xs
      | JStr s \<Rightarrow> False
      | JObj kvs \<Rightarrow> False
      | _ \<Rightarrow> True)"

definition reverse_loop_raises :: "json \<Rightarrow> error option" where
  "reverse_loop_raises v =
     (case v of
        JObj kvs \<Rightarrow> if list_ex (\<lambda>kv. iteration_raises (snd kv)) kvs then Some TypeError else None
      | _ \<Rightarrow> Some AttributeError)"

subsection \<open>Regular expressions\<close>

text \<open>
  \<^verbatim>\<open>_descend\<close> compiles \<^verbatim>\<open>self.filesFilter\<close> with \<^verbatim>\<open>re.compile\<close>, passing no flags, and
  tests each name with \<^verbatim>\<open>match\<close>. The filter is its source text, and what \<^verbatim>\<open>re\<close> makes of
  a source text is part of the world. What follows is only used to say what \<^verbatim>\<open>re\<close> makes
  of two patterns: the default one, and one given on the command line in the examples.
  \<open>ends ic s r i\<close> lists the positions where a match of \<open>r\<close> that starts at position \<open>i\<close>
  of \<open>s\<close> can end; \<open>ic\<close> says that the pattern starts with the flag \<^verbatim>\<open>(?i)\<close>. \<^verbatim>\<open>.\<close>
  matches any character but a newline; \<^verbatim>\<open>$\<close> matches at the end and before a newline that
  ends the string; \<^verbatim>\<open>match\<close> wants a match that starts at position 0 and ends anywhere.
  In both patterns \<^verbatim>\<open>.\<close> occurs under \<^verbatim>\<open>*\<close> only and the other characters are ASCII
  characters that \<^verbatim>\<open>re\<close>, under \<^verbatim>\<open>(?i)\<close>, matches with their two ASCII cases and nothing
  else: for them matching the bytes of a name and matching its characters agree.
\<close>

datatype regex =
    Lit char
  | Dot
  | Bol
  | Eol
  | Eps
  | Seq regex regex
  | Alt regex regex
  | Star regex

definition ascii_lower :: "char \<Rightarrow> char" where
  "ascii_lower c =
     (if 65 \<le> (of_char c :: nat) \<and> (of_char c :: nat) \<le> 90
      then char_of ((of_char c :: nat) + 32) else c)"

definition char_eq :: "bool \<Rightarrow> char \<Rightarrow> char \<Rightarrow> bool" where
  "char_eq ic a b = (if ic then ascii_lower a = ascii_lower b else a = b)"

primrec star_iter :: "nat \<Rightarrow> (nat \<Rightarrow> nat list) \<Rightarrow> nat list \<Rightarrow> nat list" where
  "star_iter 0 step js = js"
| "star_iter (Suc n) step js = star_iter n step (remdups (js @ concat (map step js)))"

primrec ends :: "bool \<Rightarrow> string \<Rightarrow> regex \<Rightarrow> nat \<Rightarrow> nat list" where
  "ends ic s (Lit c) i = (if i < length s \<and> char_eq ic (s ! i) c then [Suc i] else [])"
| "ends ic s Dot i = (if i < length s \<and> s ! i \<noteq> CHR 0x0A then [Suc i] else [])"
| "ends ic s Bol i = (if i = 0 then [i] else [])"
| "ends ic s Eol i =
     (if i = length s \<or> (Suc i = length s \<and> s ! i = CHR 0x0A) then [i] else [])"
| "ends ic s Eps i = [i]"
| "ends ic s (Seq a b) i = concat (map (ends ic s b) (ends ic s a i))"
| "ends ic s (Alt a b) i = ends ic s a i @ ends ic s b i"
| "ends ic s (Star a) i = star_iter (length s) (ends ic s a) [i]"

definition matches :: "bool \<Rightarrow> regex \<Rightarrow> string \<Rightarrow> bool" where
  "matches ic r s = (ends ic s r 0 \<noteq> [])"

definition lits :: "string \<Rightarrow> regex" where
  "lits s = foldr (\<lambda>c r. Seq (Lit c) r) s Eps"

text \<open>\<^verbatim>\<open>DEFAULT_FILES_FILTER = '(?i)^.*\.(mp3|ogg|wav)$'\<close>, and what \<^verbatim>\<open>re\<close> matches with it.\<close>

definition DEFAULT_FILES_FILTER :: string where
  "DEFAULT_FILES_FILTER = ''(?i)^.*'' @ [CHR 0x5C] @ ''.(mp3|ogg|wav)$''"

definition default_filter_match :: "string \<Rightarrow> bool" where
  "default_filter_match =
     matches True
       (Seq Bol (Seq (Star Dot) (Seq (Lit CHR ''.'')
          (Seq (Alt (lits ''mp3'') (Alt (lits ''ogg'') (lits ''wav''))) Eol))))"

definition DEFAULT_CACHE_FILE_NAME :: string where
  "DEFAULT_CACHE_FILE_NAME = ''audiodedupe_cache.json''"

subsection \<open>The world outside the process\<close>

text \<open>
  A regular file holds text that \<^verbatim>\<open>json.load\<close> reads as some value, or anything else (an
  audio file, a damaged cache, a file that cannot be opened for reading): then
  \<^verbatim>\<open>open\<close> or \<^verbatim>\<open>json.load\<close> raises.
\<close>

datatype content = Parsed json | Unparsable

text \<open>
  What one run of the fingerprint command on one file comes to, seen from \<^verbatim>\<open>scanFile\<close>:
  \<^verbatim>\<open>Popen\<close> raises; \<^verbatim>\<open>communicate\<close> times out and the child ends later by itself;
  \<^verbatim>\<open>communicate\<close> times out and the child never ends; the exit code is not 0; the output
  is not JSON, or JSON the code raises on; it is JSON in which the test
  \<^verbatim>\<open>'fingerprint' not in jsonOut\<close> holds; or it is a JSON object with a key
  \<^verbatim>\<open>fingerprint\<close>, holding the given value.
\<close>

datatype provider_outcome =
    SpawnError
  | TimeoutChildEnds
  | TimeoutChildStays
  | ExitNonZero
  | Malformed
  | NoFingerprint
  | Fingerprint json

text \<open>
  \<open>refuses_mkdir\<close>, \<open>refuses_write\<close> and \<open>refuses_remove\<close> say where the operating system
  refuses to make a directory, to open a file for writing, to remove a file (permissions,
  a read-only file system, a file in the place of a parent directory). \<open>re_compile\<close> is
  \<^verbatim>\<open>re.compile\<close> without flags, followed by \<^verbatim>\<open>match\<close>: nothing for a source text that
  \<^verbatim>\<open>re\<close> rejects.
\<close>

record world =
  regular_files :: "path \<rightharpoonup> content"
  directories :: "path set"
  refuses_mkdir :: "path \<Rightarrow> bool"
  refuses_write :: "path \<Rightarrow> bool"
  refuses_remove :: "path \<Rightarrow> bool"
  which :: "string \<Rightarrow> bool"
  provider :: "path \<Rightarrow> provider_outcome"
  os_walk :: "path \<Rightarrow> (path \<times> path list) list"
  abspath :: "path \<Rightarrow> path"
  re_compile :: "string \<Rightarrow> (string \<Rightarrow> bool) option"

definition isfile :: "world \<Rightarrow> path \<Rightarrow> bool" where
  "isfile w p = (regular_files w p \<noteq> None)"

definition isdir :: "world \<Rightarrow> path \<Rightarrow> bool" where
  "isdir w p = (p \<in> directories w)"

definition os_remove :: "world \<Rightarrow> path \<Rightarrow> error + world" where
  "os_remove w p =
     (if regular_files w p = None \<or> refuses_remove w p then Inl OSError
      else Inr (w\<lparr>regular_files := (regular_files w)(p := None)\<rparr>))"

text \<open>\<^verbatim>\<open>os.makedirs\<close>: there is no directory with the empty name, and none where a regular
  file is.\<close>

definition makedirs :: "world \<Rightarrow> path \<Rightarrow> error + world" where
  "makedirs w p =
     (if p = [] \<or> isfile w p \<or> isdir w p \<or> refuses_mkdir w p then Inl OSError
      else Inr (w\<lparr>directories := insert p (directories w)\<rparr>))"

text \<open>\<^verbatim>\<open>os.path.join\<close> of two components (posixpath).\<close>

definition path_join :: "path \<Rightarrow> path \<Rightarrow> path" where
  "path_join a b =
     (if b \<noteq> [] \<and> hd b = CHR ''/'' then b
      else if a = [] \<or> last a = CHR ''/'' then a @ b
      else a @ ''/'' @ b)"

subsection \<open>The class\<close>

text \<open>
  The attributes the claims depend on. \<^verbatim>\<open>cacheFile\<close> is assigned once, in \<^verbatim>\<open>__init__\<close>,
  to \<^verbatim>\<open>os.path.join(self.cacheDir, DEFAULT_CACHE_FILE_NAME)\<close>, and \<^verbatim>\<open>cacheDir\<close> is never
  assigned again: it is a function of the object. The arguments and the timeout of the
  fingerprint command are part of how the world's \<open>provider\<close> behaves.
\<close>

record AudioDedupe =
  cacheEnabled :: bool
  cacheDir :: path
  filesFilter :: string
  fingerprintCmd :: string
  concurrentProcesses :: int
  fingerprints :: fingerprints
  reverseFingerprints :: "path \<rightharpoonup> json"

record scan_result =
  res_file :: path
  res_fingerprint :: json
  res_success :: bool

definition cacheFile :: "AudioDedupe \<Rightarrow> path" where
  "cacheFile self = path_join (cacheDir self) DEFAULT_CACHE_FILE_NAME"

definition fingerprintCmdExists :: "AudioDedupe \<Rightarrow> world \<Rightarrow> bool" where
  "fingerprintCmdExists self w = which w (fingerprintCmd self)"

text \<open>
  \<^verbatim>\<open>loadCache\<close>: how it ends, the value returned, the object, the world. The
  \<^verbatim>\<open>except\<close> clause covers \<^verbatim>\<open>open\<close> and \<^verbatim>\<open>json.load\<close> only: whatever \<^verbatim>\<open>json.load\<close>
  returns is assigned to \<^verbatim>\<open>self.fingerprints\<close> and the file is kept, and an exception of
  \<^verbatim>\<open>os.remove\<close> leaves the method.
\<close>

definition loadCache :: "AudioDedupe \<Rightarrow> world \<Rightarrow> ending \<times> bool \<times> AudioDedupe \<times> world" where
  "loadCache self w =
     (case regular_files w (cacheFile self) of
        None \<Rightarrow> (Returns, False, self, w)
      | Some (Parsed v) \<Rightarrow>
          (case as_index v of
             Some d \<Rightarrow> (Returns, True, self\<lparr>fingerprints := d\<rparr>, w)
           | None \<Rightarrow> (Untyped v, True, self, w))
      | Some Unparsable \<Rightarrow>
          (case os_remove w (cacheFile self) of
             Inl e \<Rightarrow> (Raises e, False, self, w)
           | Inr w1 \<Rightarrow> (Returns, True, self, w1)))"

text \<open>\<^verbatim>\<open>writeCache\<close>: how it ends, and the world.\<close>

definition writeCache :: "AudioDedupe \<Rightarrow> world \<Rightarrow> ending \<times> world" where
  "writeCache self w =
     (case (if \<not> isdir w (cacheDir self) then makedirs w (cacheDir self) else Inr w) of
        Inl e \<Rightarrow> (Raises e, w)
      | Inr w1 \<Rightarrow>
          if isdir w1 (cacheFile self) \<or> refuses_write w1 (cacheFile self)
          then (Raises OSError, w1)
          else (Returns,
                w1\<lparr>regular_files :=
                     (regular_files w1)(cacheFile self \<mapsto> Parsed (json_dump (fingerprints self)))\<rparr>))"

text \<open>\<^verbatim>\<open>_updateReverseFingerprints\<close>: the two nested loops.\<close>

fun update_files :: "fingerprint \<Rightarrow> path list \<Rightarrow> (path \<rightharpoonup> json) \<Rightarrow> (path \<rightharpoonup> json)" where
  "update_files fp [] rvs = rvs"
| "update_files fp (fileName # fileList) rvs =
     update_files fp fileList (rvs(fileName \<mapsto> JStr fp))"

fun update_items :: "fingerprints \<Rightarrow> (path \<rightharpoonup> json) \<Rightarrow> (path \<rightharpoonup> json)" where
  "update_items [] rvs = rvs"
| "update_items ((fp, fileList) # items) rvs = update_items items (update_files fp fileList rvs)"

definition updateReverseFingerprints :: "AudioDedupe \<Rightarrow> AudioDedupe" where
  "updateReverseFingerprints self =
     self\<lparr>reverseFingerprints := update_items (fingerprints self) (reverseFingerprints self)\<rparr>"

text \<open>
  \<^verbatim>\<open>__init__\<close>: how it ends, the object under construction, the world. When the loaded
  value is not an index, \<^verbatim>\<open>_updateReverseFingerprints\<close> raises on it or, where it does not,
  the object is constructed with that value as its index.
\<close>

definition AudioDedupe_init ::
  "bool \<Rightarrow> path \<Rightarrow> string \<Rightarrow> string \<Rightarrow> int \<Rightarrow> world \<Rightarrow> ending \<times> AudioDedupe \<times> world" where
  "AudioDedupe_init cacheEnabled' cacheDir' filesFilter' fingerprintCmd' concurrentProcesses' w =
     (let self = \<lparr>cacheEnabled = cacheEnabled', cacheDir = cacheDir',
                  filesFilter = filesFilter', fingerprintCmd = fingerprintCmd',
                  concurrentProcesses = concurrentProcesses',
                  fingerprints = [], reverseFingerprints = Map.empty\<rparr>
      in if \<not> fingerprintCmdExists self w then (Raises AudioDedupeException, self, w)
         else if cacheEnabled' then
           (case loadCache self w of
              (Returns, ret, self1, w1) \<Rightarrow> (Returns, updateReverseFingerprints self1, w1)
            | (Untyped v, ret, self1, w1) \<Rightarrow>
                (case reverse_loop_raises v of
                   Some e \<Rightarrow> (Raises e, self1, w1)
                 | None \<Rightarrow> (Untyped v, self1, w1))
            | (e, ret, self1, w1) \<Rightarrow> (e, self1, w1))
         else (Returns, updateReverseFingerprints self, w))"

text \<open>
  \<^verbatim>\<open>scanFile\<close>: the result (\<^verbatim>\<open>None\<close> or the dict) if it returns, the object, and the list
  of files the fingerprint command was started on. A file name is a string, so the test
  \<^verbatim>\<open>fileName is None\<close> is false and the \<^verbatim>\<open>while True\<close> body runs once; every exception
  inside it is caught and gives \<^verbatim>\<open>None\<close>. An exception leaves the \<^verbatim>\<open>with Popen\<close> block
  through \<^verbatim>\<open>Popen.__exit__\<close>, which waits for the child without a timeout: after a
  timeout of \<^verbatim>\<open>communicate\<close> the method returns when the child has ended, and never if
  it does not end.
\<close>

datatype scanfile_ending = Returned "scan_result option" | NeverReturns

definition scanFile :: "world \<Rightarrow> AudioDedupe \<Rightarrow> path \<Rightarrow> scanfile_ending \<times> AudioDedupe \<times> path list" where
  "scanFile w self fileName =
     (case reverseFingerprints self fileName of
        Some fp \<Rightarrow>
          (Returned (Some \<lparr>res_file = fileName, res_fingerprint = fp, res_success = True\<rparr>),
           self, [])
      | None \<Rightarrow>
          (case provider w fileName of
             SpawnError \<Rightarrow> (Returned None, self, [fileName])
           | TimeoutChildEnds \<Rightarrow> (Returned None, self, [fileName])
           | TimeoutChildStays \<Rightarrow> (NeverReturns, self, [fileName])
           | ExitNonZero \<Rightarrow> (Returned None, self, [fileName])
           | Malformed \<Rightarrow> (Returned None, self, [fileName])
           | NoFingerprint \<Rightarrow> (Returned None, self, [fileName])
           | Fingerprint fp \<Rightarrow>
               (Returned (Some \<lparr>res_file = fileName, res_fingerprint = fp, res_success = True\<rparr>),
                self\<lparr>reverseFingerprints := (reverseFingerprints self)(fileName \<mapsto> fp)\<rparr>,
                [fileName])))"

text \<open>\<^verbatim>\<open>_descend\<close>: the generator, as the list it yields, or the exception of
  \<^verbatim>\<open>re.compile\<close>.\<close>

definition descend :: "AudioDedupe \<Rightarrow> world \<Rightarrow> path \<Rightarrow> error + path list" where
  "descend self w directory =
     (let directory' = abspath w directory
      in case re_compile w (filesFilter self) of
           None \<Rightarrow> Inl ReError
         | Some reFilter \<Rightarrow>
             Inr (concat (map (\<lambda>(dirName, fileList).
                     map (\<lambda>fileName. path_join (path_join directory' dirName) fileName)
                       (filter reFilter fileList))
                   (os_walk w directory'))))"

text \<open>
  The body of the \<^verbatim>\<open>for res in results\<close> loop of \<^verbatim>\<open>scan\<close>, on the dict. A fingerprint
  that is a non-empty list or object cannot be a key: \<^verbatim>\<open>setdefault\<close> raises. One that is
  \<^verbatim>\<open>true\<close> or a number other than 0 becomes a key that is not a string.
\<close>

definition merge_result :: "fingerprints \<Rightarrow> scan_result option \<Rightarrow> ending \<times> fingerprints" where
  "merge_result fps res =
     (case res of
        None \<Rightarrow> (Returns, fps)
      | Some r \<Rightarrow>
          if \<not> res_success r then (Returns, fps)
          else if \<not> (res_file r \<noteq> [] \<and> truthy (res_fingerprint r)) then (Returns, fps)
          else
            (case res_fingerprint r of
               JStr fingerprint \<Rightarrow>
                 (let fps1 = setdefault fps fingerprint []
                  in if res_file r \<notin> set (forward fps1 fingerprint)
                     then (Returns,
                           AList.update fingerprint (forward fps1 fingerprint @ [res_file r]) fps1)
                     else (Returns, fps1))
             | JArr xs \<Rightarrow> (Raises TypeError, fps)
             | JObj kvs \<Rightarrow> (Raises TypeError, fps)
             | v \<Rightarrow> (Untyped v, fps)))"

fun merge_results :: "fingerprints \<Rightarrow> scan_result option list \<Rightarrow> ending \<times> fingerprints" where
  "merge_results fps [] = (Returns, fps)"
| "merge_results fps (res # results) =
     (case merge_result fps res of
        (Returns, fps1) \<Rightarrow> merge_results fps1 results
      | (e, fps1) \<Rightarrow> (e, fps1))"

text \<open>
  \<^verbatim>\<open>scan\<close>: how it ends, the object, the world, and the list of files the fingerprint
  command was started on. \<^verbatim>\<open>mp.Pool\<close> raises on a number of processes below 1.
  \<^verbatim>\<open>pool.map\<close> first takes the whole list out of the generator, in the calling process.
  It pickles the bound method, and with it the object, for the worker processes of the
  pool: every call of \<^verbatim>\<open>scanFile\<close> works on a copy of the object as it is when \<^verbatim>\<open>scan\<close>
  starts, and what it assigns to \<^verbatim>\<open>reverseFingerprints\<close> stays in the copy. Only the list
  of results comes back, when every call has returned; if one never does, \<^verbatim>\<open>pool.map\<close>
  never does (then the object and the world are given as they were found, and no list).
  The walk yields each file once.
\<close>

definition the_result :: "scanfile_ending \<Rightarrow> scan_result option" where
  "the_result e = (case e of Returned res \<Rightarrow> res | NeverReturns \<Rightarrow> None)"

definition scan :: "AudioDedupe \<Rightarrow> world \<Rightarrow> path \<Rightarrow> ending \<times> AudioDedupe \<times> world \<times> path list" where
  "scan self w directory =
     (if concurrentProcesses self < 1 then (Raises ValueError, self, w, [])
      else
        (case descend self w directory of
           Inl e \<Rightarrow> (Raises e, self, w, [])
         | Inr fileNames \<Rightarrow>
             (let outs = map (scanFile w self) fileNames;
                  calls = concat (map (\<lambda>out. snd (snd out)) outs)
              in if list_ex (\<lambda>out. fst out = NeverReturns) outs then (Hangs, self, w, [])
                 else
                   (case merge_results (fingerprints self) (map (\<lambda>out. the_result (fst out)) outs) of
                      (Returns, fps) \<Rightarrow>
                        (let self1 = self\<lparr>fingerprints := fps\<rparr>
                         in if cacheEnabled self1
                            then (case writeCache self1 w of (e, w1) \<Rightarrow> (e, self1, w1, calls))
                            else (Returns, self1, w, calls))
                    | (e, fps) \<Rightarrow> (e, self\<lparr>fingerprints := fps\<rparr>, w, calls)))))"

text \<open>
  \<^verbatim>\<open>pruneFingerprints\<close>. The inner loop iterates the list it removes from: a list iterator
  is an index, so after \<^verbatim>\<open>files.remove(fileName)\<close> the next element looked at is the one
  at the next index of the shortened list. \<^verbatim>\<open>remove\<close> takes out the first occurrence.
\<close>

function prune_files ::
  "(path \<Rightarrow> bool) \<Rightarrow> nat \<Rightarrow> path list \<Rightarrow> (path \<rightharpoonup> json) \<Rightarrow> path list \<times> (path \<rightharpoonup> json)" where
  "prune_files isf i fileList rvs =
     (if i < length fileList then
        (if \<not> isf (fileList ! i)
         then prune_files isf (Suc i) (remove1 (fileList ! i) fileList) (rvs((fileList ! i) := None))
         else prune_files isf (Suc i) fileList rvs)
      else (fileList, rvs))"
  by pat_completeness auto
termination
  by (relation "measure (\<lambda>(isf, i, fileList, rvs). length fileList - i)")
     (auto simp: length_remove1)

text \<open>
  The outer loop iterates the dict. A dict iterator raises \<^verbatim>\<open>RuntimeError\<close> at its next
  step when the size of the dict has changed, also at the step that would end the loop:
  the first \<^verbatim>\<open>del self.fingerprints[fingerprint]\<close> ends the loop with the exception, and
  \<^verbatim>\<open>writeCache\<close> is not reached. The object keeps what was done to it before.
\<close>

fun prune_items ::
  "(path \<Rightarrow> bool) \<Rightarrow> fingerprints \<Rightarrow> fingerprints \<Rightarrow> (path \<rightharpoonup> json)
     \<Rightarrow> ending \<times> fingerprints \<times> (path \<rightharpoonup> json)" where
  "prune_items isf [] fps rvs = (Returns, fps, rvs)"
| "prune_items isf ((fp, fileList) # items) fps rvs =
     (let (fileList1, rvs1) = prune_files isf 0 fileList rvs;
          fps1 = AList.update fp fileList1 fps
      in if fileList1 = [] then (Raises RuntimeError, AList.delete fp fps1, rvs1)
         else prune_items isf items fps1 rvs1)"

definition pruneFingerprints :: "AudioDedupe \<Rightarrow> world \<Rightarrow> ending \<times> AudioDedupe \<times> world" where
  "pruneFingerprints self w =
     (let (e, fps, rvs) =
            prune_items (isfile w) (fingerprints self) (fingerprints self) (reverseFingerprints self);
          self1 = self\<lparr>fingerprints := fps, reverseFingerprints := rvs\<rparr>
      in case e of
           Returns \<Rightarrow>
             (if cacheEnabled self1
              then (case writeCache self1 w of (e1, w1) \<Rightarrow> (e1, self1, w1))
              else (Returns, self1, w))
         | _ \<Rightarrow> (e, self1, w))"

subsection \<open>The command line\<close>

text \<open>
  \<^verbatim>\<open>--disable-cache\<close> is declared with \<^verbatim>\<open>action='store_false'\<close>: the attribute
  \<^verbatim>\<open>args.disable_cache\<close> is \<^verbatim>\<open>True\<close> unless the option is on the command line.
  \<open>cl_disable_cache\<close> says whether it is.
\<close>

record cmdline =
  cl_disable_cache :: bool
  cl_reset_cache :: bool
  cl_cache_dir :: path
  cl_files_filter :: string
  cl_fingerprint_cmd :: string
  cl_concurrent_processes :: int
  cl_dirs :: "path list"

definition store_false :: "bool \<Rightarrow> bool" where
  "store_false given = (if given then False else True)"

definition store_true :: "bool \<Rightarrow> bool" where
  "store_true given = (if given then True else False)"

text \<open>The main program up to the construction of the object: how that ends, the object if
  the constructor was reached, the world.\<close>

definition main_construct :: "cmdline \<Rightarrow> world \<Rightarrow> ending \<times> AudioDedupe option \<times> world" where
  "main_construct cl w =
     (let args_disable_cache = store_false (cl_disable_cache cl);
          args_reset_cache = store_true (cl_reset_cache cl);
          cacheFile' = path_join (cl_cache_dir cl) DEFAULT_CACHE_FILE_NAME;
          reset = (if args_reset_cache \<and> isfile w cacheFile' then os_remove w cacheFile' else Inr w)
      in case reset of
           Inl e \<Rightarrow> (Raises e, None, w)
         | Inr w1 \<Rightarrow>
             (case AudioDedupe_init args_disable_cache (cl_cache_dir cl) (cl_files_filter cl)
                     (cl_fingerprint_cmd cl) (cl_concurrent_processes cl) w1 of
                (e, self, w2) \<Rightarrow> (e, Some self, w2)))"

subsection \<open>The invariant of the index\<close>

definition index_invariant :: "AudioDedupe \<Rightarrow> bool" where
  "index_invariant self =
     ((\<forall>fp p. p \<in> set (forward (fingerprints self) fp)
          \<longrightarrow> reverseFingerprints self p = Some (JStr fp)) \<and>
      (\<forall>p fp. reverseFingerprints self p = Some (JStr fp)
          \<longrightarrow> p \<in> set (forward (fingerprints self) fp)))"

subsection \<open>Example worlds\<close>

text \<open>A filter given on the command line, \<^verbatim>\<open>^.*\.flac$\<close>, and what \<^verbatim>\<open>re\<close> matches with
  it.\<close>

definition flac_filter :: string where
  "flac_filter = ''^.*'' @ [CHR 0x5C] @ ''.flac$''"

definition flac_filter_match :: "string \<Rightarrow> bool" where
  "flac_filter_match =
     matches False (Seq Bol (Seq (Star Dot) (Seq (Lit CHR ''.'') (Seq (lits ''flac'') Eol))))"

definition python_re :: "string \<Rightarrow> (string \<Rightarrow> bool) option" where
  "python_re src =
     (if src = DEFAULT_FILES_FILTER then Some default_filter_match
      else if src = flac_filter then Some flac_filter_match
      else None)"

text \<open>
  Three directories of music no run has seen yet. In \<^verbatim>\<open>/m\<close>, \<^verbatim>\<open>a.mp3\<close> and \<^verbatim>\<open>b.mp3\<close> have
  the same fingerprint, the fingerprint command times out on \<^verbatim>\<open>d.ogg\<close> and prints an
  empty fingerprint for \<^verbatim>\<open>e.mp3\<close>. In \<^verbatim>\<open>/n\<close> every file gets a fingerprint. \<^verbatim>\<open>/f\<close> holds two
  files whose names differ in letter case only. On \<^verbatim>\<open>/h/stuck.mp3\<close> the command never
  ends.
\<close>

definition music_world :: world where
  "music_world =
     \<lparr>regular_files = [''/m/a.mp3'' \<mapsto> Unparsable, ''/m/b.mp3'' \<mapsto> Unparsable,
                        ''/m/c.wav'' \<mapsto> Unparsable, ''/m/d.ogg'' \<mapsto> Unparsable,
                        ''/m/e.mp3'' \<mapsto> Unparsable,
                        ''/n/x.mp3'' \<mapsto> Unparsable, ''/n/y.wav'' \<mapsto> Unparsable],
      directories = {''/m'', ''/n''},
      refuses_mkdir = (\<lambda>p. False),
      refuses_write = (\<lambda>p. False),
      refuses_remove = (\<lambda>p. False),
      which = (\<lambda>cmd. cmd = ''fpcalc''),
      provider = (\<lambda>p. if p = ''/m/a.mp3'' \<or> p = ''/m/b.mp3'' then Fingerprint (JStr ''X'')
                       else if p = ''/m/c.wav'' then Fingerprint (JStr ''Y'')
                       else if p = ''/m/e.mp3'' then Fingerprint (JStr [])
                       else if p = ''/n/x.mp3'' \<or> p = ''/n/y.wav'' then Fingerprint (JStr ''Z'')
                       else if p = ''/h/stuck.mp3'' then TimeoutChildStays
                       else TimeoutChildEnds),
      os_walk = (\<lambda>d. if d = ''/m''
                      then [(''/m'', [''a.mp3'', ''b.mp3'', ''c.wav'', ''d.ogg'', ''e.mp3'',
                                     ''notes.txt''])]
                      else if d = ''/n'' then [(''/n'', [''x.mp3'', ''y.wav''])]
                      else if d = ''/f'' then [(''/f'', [''a.flac'', ''A.FLAC''])]
                      else if d = ''/h'' then [(''/h'', [''ok.mp3'', ''stuck.mp3''])]
                      else []),
      abspath = (\<lambda>p. p),
      re_compile = python_re\<rparr>"

text \<open>The object \<^verbatim>\<open>__init__\<close> makes when there is no cache file.\<close>

definition fresh :: AudioDedupe where
  "fresh = \<lparr>cacheEnabled = True, cacheDir = ''/c'', filesFilter = DEFAULT_FILES_FILTER,
             fingerprintCmd = ''fpcalc'', concurrentProcesses = 4, fingerprints = [],
             reverseFingerprints = Map.empty\<rparr>"


text \<open>A cache written by an earlier run, whose two files have been deleted since.\<close>

definition stale_world :: world where
  "stale_world =
     \<lparr>regular_files =
        [''/c/audiodedupe_cache.json'' \<mapsto>
           Parsed (json_dump [(''X'', [''/m/a.mp3'', ''/m/b.mp3''])])],
      directories = {''/c''},
      refuses_mkdir = (\<lambda>p. False),
      refuses_write = (\<lambda>p. False),
      refuses_remove = (\<lambda>p. False),
      which = (\<lambda>cmd. cmd = ''fpcalc''),
      provider = (\<lambda>p. SpawnError),
      os_walk = (\<lambda>d. []),
      abspath = (\<lambda>p. p),
      re_compile = python_re\<rparr>"

section \<open>Properties\<close>

subsection \<open>The merge step, one fingerprint at a time\<close>

lemma forward_setdefault: "forward (setdefault fps k []) f = forward fps f"
  by (auto simp: setdefault_def forward_def map_add_def split: option.splits)

lemma setdefault_present: "map_of fps k \<noteq> None \<Longrightarrow> setdefault fps k v = fps"
  by (auto simp: setdefault_def split: option.splits)

lemma forward_update: "forward (AList.update k v fps) f = (if f = k then v else forward fps f)"
  by (simp add: forward_def update_conv')

lemma forward_nonempty_present: "p \<in> set (forward fps f) \<Longrightarrow> map_of fps f \<noteq> None"
  by (cases "map_of fps f") (auto simp: forward_def)

lemma merge_result_skip:
  "\<not> truthy (res_fingerprint r) \<or> res_file r = [] \<or> \<not> res_success r \<Longrightarrow>
   merge_result fps (Some r) = (Returns, fps)"
  by (auto simp: merge_result_def)

lemma merge_result_None: "merge_result fps None = (Returns, fps)"
  by (simp add: merge_result_def)

lemma merge_result_string:
  "res_fingerprint r = JStr f \<Longrightarrow> fst (merge_result fps (Some r)) = Returns"
  by (simp add: merge_result_def Let_def)

lemma forward_merge_result:
  "res_fingerprint r = JStr f' \<Longrightarrow>
   forward (snd (merge_result fps (Some r))) f =
     (if res_success r \<and> res_file r \<noteq> [] \<and> f' \<noteq> [] \<and> f' = f \<and> res_file r \<notin> set (forward fps f)
      then forward fps f @ [res_file r] else forward fps f)"
  by (auto simp: merge_result_def Let_def truthy_def forward_update forward_setdefault)

lemma merge_result_again:
  assumes "res_fingerprint r = JStr f" and "merge_result fps (Some r) = (e, once)"
  shows "merge_result once (Some r) = (Returns, once)"
proof (cases "res_success r \<and> res_file r \<noteq> [] \<and> f \<noteq> []")
  case False
  then have "\<not> truthy (res_fingerprint r) \<or> res_file r = [] \<or> \<not> res_success r"
    using assms(1) by (auto simp: truthy_def)
  then show ?thesis by (rule merge_result_skip)
next
  case True
  have once: "once = snd (merge_result fps (Some r))"
    using assms(2) by simp
  have mem: "res_file r \<in> set (forward once f)"
    using True assms(1) by (simp add: once forward_merge_result)
  then have "map_of once f \<noteq> None"
    by (rule forward_nonempty_present)
  then have "setdefault once f [] = once"
    by (rule setdefault_present)
  then show ?thesis
    using True mem assms(1) by (simp add: merge_result_def [of once] Let_def truthy_def)
qed

lemma forward_subset_members: "p \<in> set (forward fps f) \<Longrightarrow> p \<in> members fps"
proof (cases "map_of fps f")
  case None
  assume "p \<in> set (forward fps f)"
  with None show ?thesis by (simp add: forward_def)
next
  case (Some fl)
  assume "p \<in> set (forward fps f)"
  with Some have "p \<in> set fl" by (simp add: forward_def)
  moreover from Some have "(f, fl) \<in> set fps" by (rule map_of_SomeD)
  ultimately show ?thesis by (force simp: members_def)
qed

lemma members_setdefault: "members (setdefault fps k []) = members fps"
  by (simp add: setdefault_def members_def split: option.splits)

lemma members_update: "members (AList.update k v fps) \<subseteq> members fps \<union> set v"
  by (induction fps) (auto simp: members_def)

lemma members_merge_result:
  assumes "p \<in> members (snd (merge_result fps res))"
  shows "p \<in> members fps \<or>
   (\<exists>r f. res = Some r \<and> res_file r = p \<and> res_success r \<and> p \<noteq> [] \<and>
          res_fingerprint r = JStr f \<and> f \<noteq> [])"
proof (cases res)
  case None
  with assms show ?thesis by (simp add: merge_result_def)
next
  case (Some r)
  show ?thesis
  proof (cases "res_success r \<and> res_file r \<noteq> [] \<and> truthy (res_fingerprint r)")
    case False
    then have "merge_result fps (Some r) = (Returns, fps)"
      by (intro merge_result_skip) auto
    with assms Some show ?thesis by simp
  next
    case True
    show ?thesis
    proof (cases "res_fingerprint r")
      case (JStr f)
      let ?fps1 = "setdefault fps f []"
      have f: "f \<noteq> []" using True JStr by (simp add: truthy_def)
      have "p \<in> members ?fps1 \<or>
            p \<in> members (AList.update f (forward ?fps1 f @ [res_file r]) ?fps1)"
        using assms Some True JStr by (auto simp: merge_result_def Let_def split: if_splits)
      then have "p \<in> members ?fps1 \<or> p \<in> set (forward ?fps1 f) \<or> p = res_file r"
        using members_update [of f "forward ?fps1 f @ [res_file r]" ?fps1] by auto
      then have "p \<in> members fps \<or> p = res_file r"
        using forward_subset_members [of p ?fps1] by (auto simp: members_setdefault)
      with Some True JStr f show ?thesis by auto
    next
      case JNull
      with assms Some True show ?thesis by (simp add: merge_result_def)
    next
      case (JBool b)
      with assms Some True show ?thesis by (simp add: merge_result_def)
    next
      case (JNum n)
      with assms Some True show ?thesis by (simp add: merge_result_def)
    next
      case (JArr xs)
      with assms Some True show ?thesis by (simp add: merge_result_def)
    next
      case (JObj kvs)
      with assms Some True show ?thesis by (simp add: merge_result_def)
    qed
  qed
qed

lemma members_merge_results:
  "p \<in> members (snd (merge_results fps results)) \<Longrightarrow>
   p \<in> members fps \<or>
   (\<exists>r f. Some r \<in> set results \<and> res_file r = p \<and> res_success r \<and> p \<noteq> [] \<and>
          res_fingerprint r = JStr f \<and> f \<noteq> [])"
proof (induction results arbitrary: fps)
  case Nil
  then show ?case by simp
next
  case (Cons res results)
  obtain e fps1 where m: "merge_result fps res = (e, fps1)"
    by (cases "merge_result fps res")
  have one: "p \<in> members fps1 \<Longrightarrow> ?case"
    using members_merge_result [of p fps res] m by auto
  show ?case
  proof (cases "e = Returns")
    case True
    with m Cons.prems have "p \<in> members (snd (merge_results fps1 results))"
      by simp
    from Cons.IH [OF this] one show ?thesis by auto
  next
    case False
    with m have "merge_results fps (res # results) = (e, fps1)"
      by (cases e) simp_all
    with Cons.prems one show ?thesis by simp
  qed
qed

subsection \<open>What \<^verbatim>\<open>scanFile\<close> and \<^verbatim>\<open>scan\<close> return\<close>

lemma scanFile_hit:
  "reverseFingerprints self q = Some fp \<Longrightarrow>
   scanFile w self q =
     (Returned (Some \<lparr>res_file = q, res_fingerprint = fp, res_success = True\<rparr>), self, [])"
  by (simp add: scanFile_def)

lemma scanFile_success:
  "reverseFingerprints self q = None \<Longrightarrow> provider w q = Fingerprint fp \<Longrightarrow>
   scanFile w self q =
     (Returned (Some \<lparr>res_file = q, res_fingerprint = fp, res_success = True\<rparr>),
      self\<lparr>reverseFingerprints := (reverseFingerprints self)(q \<mapsto> fp)\<rparr>, [q])"
  by (simp add: scanFile_def)

lemma scanFile_result:
  "the_result (fst (scanFile w self q)) = Some r \<Longrightarrow>
   res_file r = q \<and> res_success r \<and>
   (reverseFingerprints self q = Some (res_fingerprint r) \<or>
    (reverseFingerprints self q = None \<and> provider w q = Fingerprint (res_fingerprint r)))"
  by (cases "reverseFingerprints self q"; cases "provider w q")
     (auto simp: scanFile_def the_result_def)

lemma scanFile_calls:
  "snd (snd (scanFile w self q)) = (if reverseFingerprints self q = None then [q] else [])"
  by (cases "reverseFingerprints self q"; cases "provider w q") (auto simp: scanFile_def)

text \<open>The index a scan leaves is the one it found, or the one the merge loop made of it.\<close>

lemma scan_fingerprints:
  "fingerprints (fst (snd (scan self w d))) = fingerprints self \<or>
   (\<exists>fileNames. descend self w d = Inr fileNames \<and>
      fingerprints (fst (snd (scan self w d))) =
        snd (merge_results (fingerprints self)
               (map (\<lambda>q. the_result (fst (scanFile w self q))) fileNames)))"
proof (cases "concurrentProcesses self < 1")
  case True
  then show ?thesis by (simp add: scan_def)
next
  case False
  show ?thesis
  proof (cases "descend self w d")
    case (Inl e)
    with False show ?thesis by (simp add: scan_def)
  next
    case (Inr fileNames)
    obtain e fps where m: "merge_results (fingerprints self)
        (map (\<lambda>q. the_result (fst (scanFile w self q))) fileNames) = (e, fps)"
      by (cases "merge_results (fingerprints self)
        (map (\<lambda>q. the_result (fst (scanFile w self q))) fileNames)")
    show ?thesis
      using False Inr m
      by (cases e) (auto simp: scan_def Let_def comp_def split: prod.splits)
  qed
qed

lemma scan_reverse:
  "reverseFingerprints (fst (snd (scan self w d))) = reverseFingerprints self"
  by (auto simp: scan_def Let_def split: sum.splits prod.splits ending.splits)

lemma scan_members:
  assumes "p \<in> members (fingerprints (fst (snd (scan self w d))))"
  shows "p \<in> members (fingerprints self) \<or>
         (p \<noteq> [] \<and>
          (\<exists>f. f \<noteq> [] \<and> (reverseFingerprints self p = Some (JStr f) \<or>
                (reverseFingerprints self p = None \<and> provider w p = Fingerprint (JStr f)))))"
proof -
  from scan_fingerprints [of self w d] assms
  have "p \<in> members (fingerprints self) \<or>
     (\<exists>fileNames. p \<in> members (snd (merge_results (fingerprints self)
               (map (\<lambda>q. the_result (fst (scanFile w self q))) fileNames))))"
    by auto
  then show ?thesis
  proof
    assume "p \<in> members (fingerprints self)"
    then show ?thesis ..
  next
    assume "\<exists>fileNames. p \<in> members (snd (merge_results (fingerprints self)
               (map (\<lambda>q. the_result (fst (scanFile w self q))) fileNames)))"
    then obtain fileNames where "p \<in> members (snd (merge_results (fingerprints self)
               (map (\<lambda>q. the_result (fst (scanFile w self q))) fileNames)))" ..
    from members_merge_results [OF this] show ?thesis
    proof
      assume "p \<in> members (fingerprints self)"
      then show ?thesis ..
    next
      assume "\<exists>r f. Some r \<in> set (map (\<lambda>q. the_result (fst (scanFile w self q))) fileNames) \<and>
          res_file r = p \<and> res_success r \<and> p \<noteq> [] \<and> res_fingerprint r = JStr f \<and> f \<noteq> []"
      then obtain r f q where r: "Some r = the_result (fst (scanFile w self q))"
        and p: "res_file r = p" "p \<noteq> []" "res_fingerprint r = JStr f" "f \<noteq> []"
        by auto
      from scanFile_result [OF r [symmetric]] p show ?thesis by auto
    qed
  qed
qed

subsection \<open>The cache file, and what \<^verbatim>\<open>__init__\<close> returns\<close>








lemma init_no_command:
  "\<not> which w cmd \<Longrightarrow> fst (AudioDedupe_init ce cd flt cmd n w) = Raises AudioDedupeException"
  by (simp add: AudioDedupe_init_def fingerprintCmdExists_def)

lemma init_loaded:
  "which w cmd \<Longrightarrow> regular_files w (path_join cd DEFAULT_CACHE_FILE_NAME) = Some (Parsed v) \<Longrightarrow>
   as_index v = Some fps \<Longrightarrow>
   AudioDedupe_init True cd flt cmd n w =
     (Returns,
      \<lparr>cacheEnabled = True, cacheDir = cd, filesFilter = flt, fingerprintCmd = cmd,
        concurrentProcesses = n, fingerprints = fps,
        reverseFingerprints = update_items fps Map.empty\<rparr>, w)"
  by (simp add: AudioDedupe_init_def fingerprintCmdExists_def loadCache_def cacheFile_def
      updateReverseFingerprints_def)

lemma init_not_an_index:
  "which w cmd \<Longrightarrow> regular_files w (path_join cd DEFAULT_CACHE_FILE_NAME) = Some (Parsed v) \<Longrightarrow>
   as_index v = None \<Longrightarrow>
   AudioDedupe_init True cd flt cmd n w =
     ((case reverse_loop_raises v of Some e \<Rightarrow> Raises e | None \<Rightarrow> Untyped v),
      \<lparr>cacheEnabled = True, cacheDir = cd, filesFilter = flt, fingerprintCmd = cmd,
        concurrentProcesses = n, fingerprints = [], reverseFingerprints = Map.empty\<rparr>, w)"
  by (simp add: AudioDedupe_init_def fingerprintCmdExists_def loadCache_def cacheFile_def
      split: option.splits)

lemma init_unparsable:
  "which w cmd \<Longrightarrow> regular_files w (path_join cd DEFAULT_CACHE_FILE_NAME) = Some Unparsable \<Longrightarrow>
   AudioDedupe_init True cd flt cmd n w =
     (if refuses_remove w (path_join cd DEFAULT_CACHE_FILE_NAME)
      then (Raises OSError,
            \<lparr>cacheEnabled = True, cacheDir = cd, filesFilter = flt, fingerprintCmd = cmd,
              concurrentProcesses = n, fingerprints = [], reverseFingerprints = Map.empty\<rparr>, w)
      else (Returns,
            \<lparr>cacheEnabled = True, cacheDir = cd, filesFilter = flt, fingerprintCmd = cmd,
              concurrentProcesses = n, fingerprints = [], reverseFingerprints = Map.empty\<rparr>,
            w\<lparr>regular_files :=
                (regular_files w)(path_join cd DEFAULT_CACHE_FILE_NAME := None)\<rparr>))"
  by (simp add: AudioDedupe_init_def fingerprintCmdExists_def loadCache_def cacheFile_def
      os_remove_def updateReverseFingerprints_def)

lemma init_no_file:
  "which w cmd \<Longrightarrow> regular_files w (path_join cd DEFAULT_CACHE_FILE_NAME) = None \<Longrightarrow>
   AudioDedupe_init True cd flt cmd n w =
     (Returns,
      \<lparr>cacheEnabled = True, cacheDir = cd, filesFilter = flt, fingerprintCmd = cmd,
        concurrentProcesses = n, fingerprints = [], reverseFingerprints = Map.empty\<rparr>, w)"
  by (simp add: AudioDedupe_init_def fingerprintCmdExists_def loadCache_def cacheFile_def
      updateReverseFingerprints_def)

lemma init_disabled:
  "which w cmd \<Longrightarrow>
   AudioDedupe_init False cd flt cmd n w =
     (Returns,
      \<lparr>cacheEnabled = False, cacheDir = cd, filesFilter = flt, fingerprintCmd = cmd,
        concurrentProcesses = n, fingerprints = [], reverseFingerprints = Map.empty\<rparr>, w)"
  by (simp add: AudioDedupe_init_def fingerprintCmdExists_def updateReverseFingerprints_def)

lemma init_cacheEnabled:
  "cacheEnabled (fst (snd (AudioDedupe_init ce cd flt cmd n w))) = ce"
  by (auto simp: AudioDedupe_init_def loadCache_def updateReverseFingerprints_def Let_def
      split: option.splits content.splits sum.splits)


lemma writeCache_empty_cacheDir:
  "cacheDir self = [] \<Longrightarrow> \<not> isdir w [] \<Longrightarrow> writeCache self w = (Raises OSError, w)"
  by (simp add: writeCache_def makedirs_def)

lemma index_invariant_empty:
  "fingerprints self = [] \<Longrightarrow> reverseFingerprints self = Map.empty \<Longrightarrow> index_invariant self"
  by (simp add: index_invariant_def forward_def)

lemma pruneFingerprints_disabled:
  "\<not> cacheEnabled self \<Longrightarrow> snd (snd (pruneFingerprints self w)) = w"
  by (simp add: pruneFingerprints_def Let_def split: prod.splits ending.splits)

lemma scan_disabled:
  "\<not> cacheEnabled self \<Longrightarrow> fst (snd (snd (scan self w d))) = w"
  by (auto simp: scan_def Let_def split: sum.splits prod.splits ending.splits)

subsection \<open>Pruning\<close>

text \<open>
  C1. After \<^verbatim>\<open>prune()\<close> every remaining member is a file on disk, and no path missing at
  prune time is left in either mapping. The code does not do this: with the cache of
  \<open>stale_world\<close> loaded, whose two files are both gone, \<^verbatim>\<open>pruneFingerprints\<close> removes
  \<^verbatim>\<open>a.mp3\<close>, then its list iterator is at index 1 of a list of length 1 and the loop ends.
  The call returns normally, and \<^verbatim>\<open>b.mp3\<close>, which is not on disk, is still a member of
  its fingerprint's list and a key of the reverse mapping.
\<close>

theorem prune_leaves_missing_file:
  "(case AudioDedupe_init True ''/c'' DEFAULT_FILES_FILTER ''fpcalc'' 4 stale_world of
      (e, self, w) \<Rightarrow>
        e = Returns \<and>
        (case pruneFingerprints self w of
           (e1, self1, w1) \<Rightarrow>
             e1 = Returns \<and> fingerprints self1 = [(''X'', [''/m/b.mp3''])] \<and>
             reverseFingerprints self1 ''/m/b.mp3'' = Some (JStr ''X'') \<and>
             \<not> isfile w ''/m/b.mp3''))"
  by code_simp

text \<open>
  When a list does lose its last member, the \<^verbatim>\<open>del\<close> inside the iteration of the dict makes
  the iterator raise: the call ends with \<^verbatim>\<open>RuntimeError\<close>, the fingerprints after it are
  not looked at, and the cache file is not written.
\<close>

lemma prune_raises_when_group_empties:
  "(case AudioDedupe_init True ''/c'' DEFAULT_FILES_FILTER ''fpcalc'' 4
          (stale_world\<lparr>regular_files :=
             [''/c/audiodedupe_cache.json'' \<mapsto>
                Parsed (json_dump [(''X'', [''/m/a.mp3'']), (''Y'', [''/m/c.wav''])])]\<rparr>) of
      (e, self, w) \<Rightarrow>
        e = Returns \<and>
        (case pruneFingerprints self w of
           (e1, self1, w1) \<Rightarrow>
             e1 = Raises RuntimeError \<and> fingerprints self1 = [(''Y'', [''/m/c.wav''])] \<and>
             reverseFingerprints self1 ''/m/c.wav'' = Some (JStr ''Y'') \<and>
             regular_files w1 ''/c/audiodedupe_cache.json'' =
               Some (Parsed (json_dump [(''X'', [''/m/a.mp3'']), (''Y'', [''/m/c.wav''])]))))"
  by code_simp

subsection \<open>The invariant\<close>

text \<open>
  C2. Every operation keeps the invariant: a path in \<open>forward[f]\<close> has \<open>reverse[p] = f\<close>.
  The scan does not: started on an empty index, it records the three files it could
  fingerprint in \<^verbatim>\<open>fingerprints\<close>, and \<^verbatim>\<open>reverseFingerprints\<close> of the object has none of them.
\<close>

theorem scan_leaves_reverse_behind:
  "(case AudioDedupe_init True ''/c'' DEFAULT_FILES_FILTER ''fpcalc'' 4 music_world of
      (e, self, w) \<Rightarrow>
        e = Returns \<and>
        (case scan self w ''/m'' of
           (e1, self1, w1, calls) \<Rightarrow>
             e1 = Returns \<and>
             fingerprints self = [] \<and>
             fingerprints self1 =
               [(''X'', [''/m/a.mp3'', ''/m/b.mp3'']), (''Y'', [''/m/c.wav''])] \<and>
             reverseFingerprints self1 ''/m/a.mp3'' = None))"
  by code_simp

subsection \<open>Cache hits\<close>

text \<open>
  C3. A second scan of the same directory, all of whose files the first scan has put in
  the index, starts the fingerprint command zero times. The code does not do this for
  the object that made the first scan: the first scan recorded both files of \<^verbatim>\<open>/n\<close> in
  \<^verbatim>\<open>fingerprints\<close>, but \<^verbatim>\<open>reverseFingerprints\<close> of the object was not written (the
  assignment is made in the workers' copies), so the second scan finds no cache hit and
  starts the command on both files again.
\<close>

theorem second_scan_by_same_object:
  "(case scan fresh music_world ''/n'' of
      (e1, self1, w1, calls1) \<Rightarrow>
        e1 = Returns \<and>
        calls1 = [''/n/x.mp3'', ''/n/y.wav''] \<and>
        fingerprints self1 = [(''Z'', [''/n/x.mp3'', ''/n/y.wav''])] \<and>
        (case scan self1 w1 ''/n'' of
           (e2, self2, w2, calls2) \<Rightarrow> e2 = Returns \<and> calls2 = [''/n/x.mp3'', ''/n/y.wav'']))"
  by code_simp

text \<open>
  What does hold: for a path already in the reverse mapping, \<^verbatim>\<open>scanFile\<close> returns the
  cached fingerprint and does not start the fingerprint command, and a scan all of whose
  candidate paths are in the reverse mapping starts it zero times.
\<close>

lemma cache_hit_skips_provider:
  "(reverseFingerprints self p = Some fp \<longrightarrow>
      scanFile w self p =
        (Returned (Some \<lparr>res_file = p, res_fingerprint = fp, res_success = True\<rparr>), self, [])) \<and>
   (descend self w d = Inr fileNames \<and>
    (\<forall>q \<in> set fileNames. reverseFingerprints self q \<noteq> None) \<longrightarrow>
      snd (snd (snd (scan self w d))) = [])"
proof -
  have "concat (map (\<lambda>q. snd (snd (scanFile w self q))) qs) = []"
    if "\<forall>q \<in> set qs. reverseFingerprints self q \<noteq> None" for qs
    using that by (induction qs) (auto simp: scanFile_calls)
  then show ?thesis
    by (auto simp: scanFile_hit scan_def Let_def comp_def split: prod.splits ending.splits)
qed

subsection \<open>A failing fingerprint command\<close>

text \<open>
  C4. When the fingerprint command fails on a candidate path, whatever the failure, the
  scan as a whole still completes and the path is in neither mapping after it. The code
  does not ensure either. On \<^verbatim>\<open>/h/stuck.mp3\<close> the command does not end: \<^verbatim>\<open>communicate\<close>
  times out, but leaving the \<^verbatim>\<open>with Popen\<close> block waits for the child, so the scan of
  \<^verbatim>\<open>/h\<close> never returns. And the scan of \<^verbatim>\<open>/m\<close> records \<^verbatim>\<open>a.mp3\<close> in \<^verbatim>\<open>fingerprints\<close> and not in
  \<^verbatim>\<open>reverseFingerprints\<close>, so the next scan by the same object starts the command on it
  again; when the command now fails, \<^verbatim>\<open>a.mp3\<close> is still in the forward mapping after that
  scan.
\<close>

theorem failed_provider_hangs_or_stays_recorded:
  "fst (scan fresh music_world ''/h'') = Hangs \<and>
   (case scan fresh music_world ''/m'' of
      (e1, self1, w1, calls1) \<Rightarrow>
        e1 = Returns \<and>
        (case scan self1 (w1\<lparr>provider := (\<lambda>p. ExitNonZero)\<rparr>) ''/m'' of
           (e2, self2, w2, calls2) \<Rightarrow>
             e2 = Returns \<and> ''/m/a.mp3'' \<in> set calls2 \<and>
             ''/m/a.mp3'' \<in> set (forward (fingerprints self2) ''X'')))"
  by code_simp

text \<open>
  A fingerprint that is a list, as the command prints it when asked for the raw
  fingerprint, ends the scan too: the merge loop raises \<^verbatim>\<open>TypeError\<close> and the cache is not
  written.
\<close>

lemma scan_raises_on_list_fingerprint:
  "(case scan fresh (music_world\<lparr>provider := (\<lambda>p. Fingerprint (JArr [JNum 1, JNum 2]))\<rparr>) ''/n'' of
      (e, self1, w1, calls) \<Rightarrow>
        e = Raises TypeError \<and> fingerprints self1 = [] \<and>
        regular_files w1 ''/c/audiodedupe_cache.json'' = None)"
  by code_simp

subsection \<open>Recording a result\<close>

text \<open>
  C5, as amended. Merging the successful result for a path \<open>p\<close> and a fingerprint \<open>f\<close>,
  both non-empty strings, raises no error, merging it a second time changes nothing, and
  then \<open>forward[f]\<close> holds \<open>p\<close> exactly once, provided it held \<open>p\<close> at most once before.
\<close>

theorem record_idempotent:
  "p \<noteq> [] \<Longrightarrow> f \<noteq> [] \<Longrightarrow> count_list (forward fps f) p \<le> 1 \<Longrightarrow>
   (let r = Some \<lparr>res_file = p, res_fingerprint = JStr f, res_success = True\<rparr>
    in case merge_result fps r of
         (e, once) \<Rightarrow>
           e = Returns \<and> merge_result once r = (Returns, once) \<and>
           count_list (forward once f) p = 1)"
proof -
  assume p: "p \<noteq> []" and f: "f \<noteq> []" and c: "count_list (forward fps f) p \<le> 1"
  let ?r = "\<lparr>res_file = p, res_fingerprint = JStr f, res_success = True\<rparr>"
  obtain e once where m: "merge_result fps (Some ?r) = (e, once)"
    by (cases "merge_result fps (Some ?r)")
  have e: "e = Returns"
    using merge_result_string [of ?r f fps] m by simp
  have again: "merge_result once (Some ?r) = (Returns, once)"
    using merge_result_again [OF _ m] by simp
  have once: "once = snd (merge_result fps (Some ?r))"
    using m by simp
  have "count_list (forward once f) p = 1"
  proof (cases "p \<in> set (forward fps f)")
    case True
    then have "0 < count_list (forward fps f) p"
      using count_list_0_iff [of "forward fps f" p] by auto
    with c have "count_list (forward fps f) p = 1" by simp
    with True p f show ?thesis by (simp add: once forward_merge_result)
  next
    case False
    then have "count_list (forward fps f) p = 0" by (simp add: count_list_0_iff)
    with False p f show ?thesis by (simp add: once forward_merge_result)
  qed
  with e again show ?thesis by (simp add: m)
qed

theorem record_idempotent_witness:
  "(let r = Some \<lparr>res_file = ''/m/a.mp3'', res_fingerprint = JStr ''X'', res_success = True\<rparr>
    in case merge_result [(''X'', [''/m/b.mp3''])] r of
         (e, once) \<Rightarrow>
           e = Returns \<and> merge_result once r = (Returns, once) \<and>
           count_list (forward once ''X'') ''/m/a.mp3'' = 1) \<and>
   merge_result [(''X'', [''/m/b.mp3''])]
      (Some \<lparr>res_file = ''/m/a.mp3'', res_fingerprint = JStr ''X'', res_success = True\<rparr>)
     = (Returns, [(''X'', [''/m/b.mp3'', ''/m/a.mp3''])])"
proof -
  have h: "count_list (forward [(''X'', [''/m/b.mp3''])] ''X'') ''/m/a.mp3'' \<le> 1"
    by (simp add: forward_def)
  have e: "merge_result [(''X'', [''/m/b.mp3''])]
      (Some \<lparr>res_file = ''/m/a.mp3'', res_fingerprint = JStr ''X'', res_success = True\<rparr>)
     = (Returns, [(''X'', [''/m/b.mp3'', ''/m/a.mp3''])])"
    by (simp add: merge_result_def setdefault_def forward_def truthy_def)
  show ?thesis
    using record_idempotent [of "''/m/a.mp3''" "''X''" "[(''X'', [''/m/b.mp3''])]", OF _ _ h] e
    by simp
qed

text \<open>
  As stated, for every fingerprint, the claim fails at the empty one: the guard
  \<^verbatim>\<open>if not (fileName and fingerprint): continue\<close> skips the result, and \<open>forward['']\<close>
  does not hold the path at all.
\<close>

theorem record_empty_fingerprint_counterexample:
  "\<not> (let r = Some \<lparr>res_file = ''/m/e.mp3'', res_fingerprint = JStr [], res_success = True\<rparr>
      in case merge_result [] r of
           (e, once) \<Rightarrow>
             (case merge_result once r of
                (e', twice) \<Rightarrow> count_list (forward twice []) ''/m/e.mp3'' = 1))"
  by (simp add: merge_result_def forward_def truthy_def)

subsection \<open>Saving and loading\<close>



text \<open>
  When \<^verbatim>\<open>writeCache\<close> does not return there is nothing to load: with an empty
  \<^verbatim>\<open>cacheDir\<close>, \<^verbatim>\<open>os.makedirs\<close> raises and no file is written
  (\<open>writeCache_empty_cacheDir\<close>).
\<close>

text \<open>
  C7. Loading a cache file that cannot be parsed lets no exception escape, leaves an
  empty, valid index and discards the file. The code does this only for a file
  \<^verbatim>\<open>json.load\<close> rejects. A damaged cache that is still JSON, a list or a dict with a number
  in place of a list, is assigned to \<^verbatim>\<open>self.fingerprints\<close> as it is and the file is kept;
  \<^verbatim>\<open>_updateReverseFingerprints\<close> then raises out of \<^verbatim>\<open>__init__\<close>, and will on every run.
  And for a file \<^verbatim>\<open>json.load\<close> does reject, the \<^verbatim>\<open>except\<close> clause calls \<^verbatim>\<open>os.remove\<close>
  unguarded: when the file cannot be removed, that exception escapes and the file stays.
\<close>

theorem damaged_cache_raises:
  "(case AudioDedupe_init True ''/c'' DEFAULT_FILES_FILTER ''fpcalc'' 4
          (stale_world\<lparr>regular_files :=
             [''/c/audiodedupe_cache.json'' \<mapsto> Parsed (JArr [JNum 1, JNum 2])]\<rparr>) of
      (e, self, w) \<Rightarrow>
        e = Raises AttributeError \<and>
        regular_files w ''/c/audiodedupe_cache.json'' = Some (Parsed (JArr [JNum 1, JNum 2]))) \<and>
   (case AudioDedupe_init True ''/c'' DEFAULT_FILES_FILTER ''fpcalc'' 4
          (stale_world\<lparr>regular_files :=
             [''/c/audiodedupe_cache.json'' \<mapsto> Parsed (JObj [(''X'', JNum 5)])]\<rparr>) of
      (e, self, w) \<Rightarrow>
        e = Raises TypeError \<and>
        regular_files w ''/c/audiodedupe_cache.json'' = Some (Parsed (JObj [(''X'', JNum 5)]))) \<and>
   (case AudioDedupe_init True ''/c'' DEFAULT_FILES_FILTER ''fpcalc'' 4
          (stale_world\<lparr>regular_files := [''/c/audiodedupe_cache.json'' \<mapsto> Unparsable],
             refuses_remove := (\<lambda>p. True)\<rparr>) of
      (e, self, w) \<Rightarrow>
        e = Raises OSError \<and>
        regular_files w ''/c/audiodedupe_cache.json'' = Some Unparsable)"
  by code_simp

text \<open>
  What does hold: when the cache file holds what \<^verbatim>\<open>json.load\<close> rejects and the file can
  be removed, \<^verbatim>\<open>loadCache\<close> returns, does not touch the index, and removes the file and
  no other, so that the next \<^verbatim>\<open>loadCache\<close> finds no file; the object \<^verbatim>\<open>__init__\<close> returns
  has an empty index, which satisfies the invariant.
\<close>

lemma unparsable_cache_discarded:
  "regular_files w (cacheFile self) = Some Unparsable \<Longrightarrow> \<not> refuses_remove w (cacheFile self) \<Longrightarrow>
   (case loadCache self w of
      (e, ret, self1, w1) \<Rightarrow>
        e = Returns \<and> ret = True \<and> self1 = self \<and> regular_files w1 (cacheFile self) = None \<and>
        (\<forall>q. q \<noteq> cacheFile self \<longrightarrow> regular_files w1 q = regular_files w q) \<and>
        loadCache self1 w1 = (Returns, False, self1, w1)) \<and>
   (which w cmd \<longrightarrow>
      (case AudioDedupe_init True (cacheDir self) flt cmd n w of
         (e, self1, w1) \<Rightarrow>
           e = Returns \<and> fingerprints self1 = [] \<and> reverseFingerprints self1 = Map.empty \<and>
           index_invariant self1 \<and> regular_files w1 (cacheFile self) = None))"
proof -
  assume bad: "regular_files w (cacheFile self) = Some Unparsable"
    and rm: "\<not> refuses_remove w (cacheFile self)"
  let ?w1 = "w\<lparr>regular_files := (regular_files w)(cacheFile self := None)\<rparr>"
  have load: "loadCache self w = (Returns, True, self, ?w1)"
    using bad rm by (simp add: loadCache_def os_remove_def)
  have again: "loadCache self ?w1 = (Returns, False, self, ?w1)"
    by (simp add: loadCache_def)
  have init: "AudioDedupe_init True (cacheDir self) flt cmd n w =
     (Returns,
      \<lparr>cacheEnabled = True, cacheDir = cacheDir self, filesFilter = flt, fingerprintCmd = cmd,
        concurrentProcesses = n, fingerprints = [], reverseFingerprints = Map.empty\<rparr>, ?w1)"
    if wh: "which w cmd"
    using init_unparsable [OF wh, of "cacheDir self" flt n] bad rm
    by (simp add: cacheFile_def)
  show ?thesis
    using load again init
    by (simp add: index_invariant_empty)
qed

subsection \<open>The file-name filter\<close>






subsection \<open>The flag that disables the cache\<close>

text \<open>
  C9. The object the main program constructs has \<^verbatim>\<open>cacheEnabled\<close> false when
  \<^verbatim>\<open>--disable-cache\<close> is on the command line and true when it is not. With the flag, the
  constructor returns and has loaded nothing (the index is empty and the files are as they
  were), and neither \<^verbatim>\<open>scan\<close> nor \<^verbatim>\<open>pruneFingerprints\<close> writes the cache, however they
  end. The constructor is always reached unless \<^verbatim>\<open>--reset-cache\<close> is given and the cache
  file cannot be removed; without the flag it returns unless loading the cache fails:
  the file holds JSON that is not an index, or it cannot be parsed nor removed.
\<close>

theorem disable_cache_flag:
  "which w (cl_fingerprint_cmd cl) \<Longrightarrow>
   (case main_construct cl w of
      (e, None, w1) \<Rightarrow> e = Raises OSError \<and> cl_reset_cache cl \<and> w1 = w
    | (e, Some self, w1) \<Rightarrow>
        cacheEnabled self = (\<not> cl_disable_cache cl) \<and>
        (cl_disable_cache cl \<longrightarrow>
           e = Returns \<and> fingerprints self = [] \<and> reverseFingerprints self = Map.empty \<and>
           (\<not> cl_reset_cache cl \<longrightarrow> w1 = w) \<and>
           (\<forall>d. fst (snd (snd (scan self w1 d))) = w1) \<and>
           snd (snd (pruneFingerprints self w1)) = w1) \<and>
        (\<not> cl_disable_cache cl \<and> e \<noteq> Returns \<longrightarrow>
           (\<exists>v. regular_files w1 (cacheFile self) = Some (Parsed v) \<and> as_index v = None) \<or>
           (regular_files w1 (cacheFile self) = Some Unparsable \<and>
            refuses_remove w1 (cacheFile self))))"
proof -
  assume wh: "which w (cl_fingerprint_cmd cl)"
  let ?cf = "path_join (cl_cache_dir cl) DEFAULT_CACHE_FILE_NAME"
  let ?reset = "if cl_reset_cache cl \<and> isfile w ?cf then os_remove w ?cf else Inr w"
  have m: "main_construct cl w =
      (case ?reset of
         Inl e \<Rightarrow> (Raises e, None, w)
       | Inr w1 \<Rightarrow>
           (case AudioDedupe_init (\<not> cl_disable_cache cl) (cl_cache_dir cl) (cl_files_filter cl)
                   (cl_fingerprint_cmd cl) (cl_concurrent_processes cl) w1 of
              (e, self, w2) \<Rightarrow> (e, Some self, w2)))"
    by (auto simp: main_construct_def store_false_def store_true_def Let_def split: sum.splits)
  show ?thesis
  proof (cases ?reset)
    case (Inl e)
    then have "e = OSError \<and> cl_reset_cache cl"
      by (auto simp: os_remove_def split: if_splits)
    with Inl show ?thesis by (simp add: m)
  next
    case (Inr w1)
    then have wh1: "which w1 (cl_fingerprint_cmd cl)" and same: "\<not> cl_reset_cache cl \<longrightarrow> w1 = w"
      using wh by (auto simp: os_remove_def split: if_splits)
    show ?thesis
    proof (cases "cl_disable_cache cl")
      case True
      have "main_construct cl w =
          (Returns,
           Some \<lparr>cacheEnabled = False, cacheDir = cl_cache_dir cl,
                 filesFilter = cl_files_filter cl, fingerprintCmd = cl_fingerprint_cmd cl,
                 concurrentProcesses = cl_concurrent_processes cl, fingerprints = [],
                 reverseFingerprints = Map.empty\<rparr>, w1)"
        using True Inr init_disabled [OF wh1] by (simp add: m)
      then show ?thesis
        using True same by (simp add: scan_disabled pruneFingerprints_disabled)
    next
      case False
      let ?init = "AudioDedupe_init True (cl_cache_dir cl) (cl_files_filter cl)
          (cl_fingerprint_cmd cl) (cl_concurrent_processes cl) w1"
      obtain e self w2 where i: "?init = (e, self, w2)"
        by (cases ?init)
      have en: "cacheEnabled self"
        using init_cacheEnabled [of True "cl_cache_dir cl" "cl_files_filter cl"
            "cl_fingerprint_cmd cl" "cl_concurrent_processes cl" w1] i by simp
      have why: "(\<exists>v. regular_files w2 (cacheFile self) = Some (Parsed v) \<and> as_index v = None) \<or>
           (regular_files w2 (cacheFile self) = Some Unparsable \<and>
            refuses_remove w2 (cacheFile self))" if "e \<noteq> Returns"
      proof (cases "regular_files w1 ?cf")
        case None
        from init_no_file [OF wh1 None] i that show ?thesis by simp
      next
        case (Some c)
        show ?thesis
        proof (cases c)
          case (Parsed v)
          show ?thesis
          proof (cases "as_index v")
            case None
            from init_not_an_index [OF wh1 _ None] Some Parsed i None show ?thesis
              by (auto simp: cacheFile_def)
          next
            case (Some fps)
            from init_loaded [OF wh1 _ Some] \<open>regular_files w1 ?cf = Some c\<close> Parsed i that
            show ?thesis by simp
          qed
        next
          case Unparsable
          from init_unparsable [OF wh1] Some Unparsable i that show ?thesis
            by (auto simp: cacheFile_def split: if_splits)
        qed
      qed
      from False Inr i en why show ?thesis by (simp add: m)
    qed
  qed
qed

theorem disable_cache_flag_witness:
  "(case main_construct \<lparr>cl_disable_cache = True, cl_reset_cache = False, cl_cache_dir = ''/c'',
        cl_files_filter = DEFAULT_FILES_FILTER, cl_fingerprint_cmd = ''fpcalc'',
        cl_concurrent_processes = 4, cl_dirs = [''/m'']\<rparr> stale_world of
      (e, None, w1) \<Rightarrow> False
    | (e, Some self, w1) \<Rightarrow>
        e = Returns \<and> cacheEnabled self = False \<and> fingerprints self = [] \<and>
        fst (snd (snd (scan self w1 ''/m''))) = w1) \<and>
   (case main_construct \<lparr>cl_disable_cache = False, cl_reset_cache = False, cl_cache_dir = ''/c'',
        cl_files_filter = DEFAULT_FILES_FILTER, cl_fingerprint_cmd = ''fpcalc'',
        cl_concurrent_processes = 4, cl_dirs = [''/m'']\<rparr> stale_world of
      (e, None, w1) \<Rightarrow> False
    | (e, Some self, w1) \<Rightarrow> cacheEnabled self = True)"
proof -
  have h: "which stale_world ''fpcalc''"
    by (simp add: stale_world_def)
  show ?thesis
    using disable_cache_flag [of stale_world "\<lparr>cl_disable_cache = True, cl_reset_cache = False,
        cl_cache_dir = ''/c'', cl_files_filter = DEFAULT_FILES_FILTER,
        cl_fingerprint_cmd = ''fpcalc'', cl_concurrent_processes = 4, cl_dirs = [''/m'']\<rparr>"]
      disable_cache_flag [of stale_world "\<lparr>cl_disable_cache = False, cl_reset_cache = False,
        cl_cache_dir = ''/c'', cl_files_filter = DEFAULT_FILES_FILTER,
        cl_fingerprint_cmd = ''fpcalc'', cl_concurrent_processes = 4, cl_dirs = [''/m'']\<rparr>"]
      h
    by (auto split: prod.splits option.splits)
qed

subsection \<open>An empty fingerprint\<close>

text \<open>
  C10. When the fingerprint command succeeds on a path \<open>p\<close> with the empty string as
  fingerprint, \<^verbatim>\<open>scanFile\<close> returns a successful result and has set \<open>reverse[p]\<close> to the
  empty string in the object it ran on (the worker's), but the merge step skips the
  result: merging it changes no index, and after the scan, however it ends, \<open>p\<close>, not
  recorded before, is in no group of the forward mapping.
\<close>

theorem empty_fingerprint_not_recorded:
  "provider w p = Fingerprint (JStr []) \<Longrightarrow> reverseFingerprints self p = None \<Longrightarrow>
   p \<notin> members (fingerprints self) \<Longrightarrow>
   (case scanFile w self p of
      (res, worker, calls) \<Rightarrow>
        res = Returned (Some \<lparr>res_file = p, res_fingerprint = JStr [], res_success = True\<rparr>) \<and>
        reverseFingerprints worker p = Some (JStr []) \<and>
        merge_result fps (the_result res) = (Returns, fps)) \<and>
   (case scan self w d of
      (e, self1, w1, calls) \<Rightarrow> p \<notin> members (fingerprints self1))"
proof -
  assume prov: "provider w p = Fingerprint (JStr [])" and miss: "reverseFingerprints self p = None"
    and new: "p \<notin> members (fingerprints self)"
  have one: "case scanFile w self p of
      (res, worker, calls) \<Rightarrow>
        res = Returned (Some \<lparr>res_file = p, res_fingerprint = JStr [], res_success = True\<rparr>) \<and>
        reverseFingerprints worker p = Some (JStr []) \<and>
        merge_result fps (the_result res) = (Returns, fps)"
    by (simp add: scanFile_success [OF miss prov] the_result_def merge_result_skip truthy_def)
  have "p \<notin> members (fingerprints (fst (snd (scan self w d))))"
  proof
    assume "p \<in> members (fingerprints (fst (snd (scan self w d))))"
    from scan_members [OF this] new miss prov show False by auto
  qed
  then have "case scan self w d of (e, self1, w1, calls) \<Rightarrow> p \<notin> members (fingerprints self1)"
    by (simp add: case_prod_unfold)
  with one show ?thesis by simp
qed

theorem empty_fingerprint_not_recorded_witness:
  "(case scanFile music_world fresh ''/m/e.mp3'' of
      (res, worker, calls) \<Rightarrow>
        res = Returned
               (Some \<lparr>res_file = ''/m/e.mp3'', res_fingerprint = JStr [], res_success = True\<rparr>) \<and>
        reverseFingerprints worker ''/m/e.mp3'' = Some (JStr []) \<and>
        merge_result [(''X'', [''/m/a.mp3''])] (the_result res)
          = (Returns, [(''X'', [''/m/a.mp3''])])) \<and>
   (case scan fresh music_world ''/m'' of
      (e, self1, w1, calls) \<Rightarrow>
        e = Returns \<and> ''/m/e.mp3'' \<in> set calls \<and> ''/m/e.mp3'' \<notin> members (fingerprints self1))"
proof -
  have h1: "provider music_world ''/m/e.mp3'' = Fingerprint (JStr [])"
    by (simp add: music_world_def)
  have h2: "reverseFingerprints fresh ''/m/e.mp3'' = None"
    by (simp add: fresh_def)
  have h3: "''/m/e.mp3'' \<notin> members (fingerprints fresh)"
    by (simp add: fresh_def members_def)
  have e: "fst (scan fresh music_world ''/m'') = Returns"
    by code_simp
  have c: "''/m/e.mp3'' \<in> set (snd (snd (snd (scan fresh music_world ''/m''))))"
    by code_simp
  show ?thesis
    using empty_fingerprint_not_recorded [OF h1 h2 h3, of "[(''X'', [''/m/a.mp3''])]" "''/m''"] e c
    by (clarsimp simp: case_prod_unfold the_result_def)
qed

end
